theory Spec2Isabelle
  imports Main "HOL-Library.Char_ord" "HOL-Library.List_Lexorder" "HOL-Library.Product_Lexorder"
begin

section \<open>Strings and paths\<close>

text \<open>
  Python strings are modelled as HOL strings and compared by code point
  (\<open>Char_ord\<close>, \<open>List_Lexorder\<close>), as \<open>str.__lt__\<close> does. A \<open>pathlib.Path\<close> is
  modelled by its string form \<open>str(p)\<close>, already normalised the way pathlib
  prints it (no trailing separator, no \<open>.\<close> component except the path \<open>.\<close> itself).
\<close>

type_synonym path = string

definition startswith :: "string \<Rightarrow> string \<Rightarrow> bool" where
  "startswith s pre = (take (length pre) s = pre)"

text \<open>\<open>str.lstrip('.')\<close>: drop every leading dot.\<close>

definition lstrip_dot :: "string \<Rightarrow> string" where
  "lstrip_dot s = dropWhile (\<lambda>c. c = CHR ''.'') s"

text \<open>
  \<open>str.lower()\<close> on the code points a HOL character can hold (0 to 255): the
  letters \<open>A\<close> to \<open>Z\<close> and the capital letters of Latin-1 (192 to 222, the
  multiplication sign 215 apart) move up by 32, every other code point stays.
\<close>

definition lower_char :: "char \<Rightarrow> char" where
  "lower_char c = (let n = (of_char c :: nat) in
     if (65 \<le> n \<and> n \<le> 90) \<or> (192 \<le> n \<and> n \<le> 222 \<and> n \<noteq> 215)
     then char_of (n + 32) else c)"

definition lower :: "string \<Rightarrow> string" where
  "lower s = map lower_char s"

text \<open>\<open>Path.name\<close>: the final component; the path \<open>.\<close> has the empty name.\<close>

definition path_name :: "path \<Rightarrow> string" where
  "path_name p = (if p = ''.'' then [] else rev (takeWhile (\<lambda>c. c \<noteq> CHR ''/'') (rev p)))"

text \<open>
  \<open>str.rfind('.')\<close> as an option, and \<open>Path.suffix\<close>: with \<open>i = name.rfind('.')\<close> the
  suffix is \<open>name[i:]\<close> when \<open>0 < i < len(name) - 1\<close> and the empty string otherwise.
\<close>

definition rfind_dot :: "string \<Rightarrow> nat option" where
  "rfind_dot s = (if CHR ''.'' \<in> set s
     then Some (length s - 1 - length (takeWhile (\<lambda>c. c \<noteq> CHR ''.'') (rev s)))
     else None)"

definition path_suffix :: "path \<Rightarrow> string" where
  "path_suffix p = (let n = path_name p in
     case rfind_dot n of
       None \<Rightarrow> []
     | Some i \<Rightarrow> if 0 < i \<and> i + 1 < length n then drop i n else [])"

text \<open>The expression \<open>p.suffix.lstrip('.').lower()\<close> of both functions.\<close>

definition extension :: "path \<Rightarrow> string" where
  "extension p = lower (lstrip_dot (path_suffix p))"

section \<open>Classifier tables\<close>

definition KEY_DIRECTORIES :: "(string \<times> string) list" where
  "KEY_DIRECTORIES = [
    (''src'', ''Source code''),
    (''lib'', ''Library code''),
    (''app'', ''Application code''),
    (''components'', ''UI components''),
    (''pages'', ''Page components''),
    (''views'', ''View components''),
    (''api'', ''API endpoints''),
    (''routes'', ''Route definitions''),
    (''controllers'', ''Controller logic''),
    (''services'', ''Business logic services''),
    (''models'', ''Data models''),
    (''utils'', ''Utility functions''),
    (''helpers'', ''Helper functions''),
    (''config'', ''Configuration files''),
    (''tests'', ''Test files''),
    (''test'', ''Test files''),
    (''__tests__'', ''Test files''),
    (''spec'', ''Test specifications''),
    (''docs'', ''Documentation''),
    (''assets'', ''Static assets''),
    (''public'', ''Public files''),
    (''static'', ''Static files''),
    (''styles'', ''Stylesheets''),
    (''scripts'', ''Build/deploy scripts''),
    (''dist'', ''Distribution files''),
    (''build'', ''Build output''),
    (''node_modules'', ''Node dependencies''),
    (''.git'', ''Git version control''),
    (''vendor'', ''Third-party dependencies'')]"

definition CODE_EXTENSIONS :: "string list" where
  "CODE_EXTENSIONS = [
    ''py'', ''js'', ''ts'', ''jsx'', ''tsx'', ''vue'', ''svelte'',
    ''java'', ''kt'', ''kts'', ''go'', ''rs'', ''c'', ''cpp'', ''h'', ''hpp'',
    ''cs'', ''swift'', ''rb'', ''php'', ''scala'', ''dart'',
    ''html'', ''css'', ''scss'', ''sass'', ''less'',
    ''json'', ''yaml'', ''yml'', ''xml'', ''toml'', ''ini'']"

definition skip_dirs :: "string list" where
  "skip_dirs = [''node_modules'', ''__pycache__'', ''.git'', ''dist'', ''build'', ''.next'', ''.nuxt'']"

section \<open>The file system\<close>

text \<open>
  The file system is what the three system calls of the script answer, fixed for
  the duration of one run:
  \<^item> \<open>is_dir p\<close> is \<open>p.is_dir()\<close>;
  \<^item> \<open>iterdir p\<close> is the listing \<open>p.iterdir()\<close> in the order the system gives it,
    \<open>None\<close> when listing raises \<open>PermissionError\<close>;
  \<^item> \<open>read_lines p\<close> is the number of lines a line-oriented read of \<open>p\<close> yields,
    \<open>None\<close> when opening or reading raises.
  Nothing ties the three together: a listing may name any paths, also the
  directory itself (a symbolic link cycle). As the answers are fixed, the sort
  key of a listing (which calls \<open>is_dir\<close> on every entry) cannot succeed and the
  same call fail later inside the loop: a \<open>PermissionError\<close> reaches the
  \<open>except\<close> clause only before the first child is visited, which \<open>iterdir p = None\<close>
  stands for. A listing that fails with another error, which the script lets
  escape, is outside the model.
\<close>

record filesystem =
  is_dir :: "path \<Rightarrow> bool"
  iterdir :: "path \<Rightarrow> path list option"
  read_lines :: "path \<Rightarrow> nat option"

section \<open>Line counter\<close>

definition count_lines :: "filesystem \<Rightarrow> path \<Rightarrow> int" where
  "count_lines fs file_path = (case read_lines fs file_path of
     Some n \<Rightarrow> int n
   | None \<Rightarrow> 0)"

section \<open>Tree builder\<close>

text \<open>
  A value of the result tree is either a string (the markers \<open><skipped>\<close> and
  \<open><permission denied>\<close> that stand in a \<open>children\<close> list) or a dict with the six
  keys \<open>name\<close>, \<open>type\<close>, \<open>path\<close>, \<open>children\<close>, \<open>line_count\<close> and \<open>is_key\<close>.
\<close>

datatype item =
    Str string
  | Dict (node_name: string) (node_type: string) (node_path: string)
         (children: "item list") (line_count: int) (is_key: bool)

text \<open>\<open>child.get('line_count', 0)\<close> of a dict.\<close>

fun get_line_count :: "item \<Rightarrow> int" where
  "get_line_count (Dict n t p cs l k) = l"
| "get_line_count (Str s) = 0"

text \<open>
  The \<open>for\<close> loop over the sorted listing, on the results of the recursive calls:
  a \<open>None\<close> is passed over, a dict is appended to \<open>children\<close> and its
  \<open>line_count\<close> added to the running total.
\<close>

fun collect :: "item option list \<Rightarrow> item list \<times> int \<Rightarrow> item list \<times> int" where
  "collect [] acc = acc"
| "collect (None # rs) acc = collect rs acc"
| "collect (Some child # rs) (cs, lc) = collect rs (cs @ [child], lc + get_line_count child)"

definition sort_items :: "filesystem \<Rightarrow> path list \<Rightarrow> path list" where
  "sort_items fs xs = sort_key (\<lambda>x. (\<not> is_dir fs x, path_name x)) xs"

function analyze_directory :: "filesystem \<Rightarrow> path \<Rightarrow> int \<Rightarrow> bool \<Rightarrow> int \<Rightarrow> item option" where
  "analyze_directory fs root_path max_depth include_hidden current_depth =
    (if current_depth > max_depth then None
     else if is_dir fs root_path then
       (if \<not> include_hidden \<and> startswith (path_name root_path) ''.'' \<and> path_name root_path \<noteq> ''.''
        then None
        else if path_name root_path \<in> set skip_dirs
        then Some (Dict (path_name root_path) ''dir'' root_path [Str ''<skipped>''] 0
                     (lower (path_name root_path) \<in> set (map fst KEY_DIRECTORIES)))
        else (case iterdir fs root_path of
            None \<Rightarrow> Some (Dict (path_name root_path) ''dir'' root_path [Str ''<permission denied>''] 0
                     (lower (path_name root_path) \<in> set (map fst KEY_DIRECTORIES)))
          | Some listing \<Rightarrow>
              (let res = collect
                     (map (\<lambda>item. analyze_directory fs item max_depth include_hidden (current_depth + 1))
                          (sort_items fs listing))
                     ([], 0)
               in Some (Dict (path_name root_path) ''dir'' root_path (fst res) (snd res)
                     (lower (path_name root_path) \<in> set (map fst KEY_DIRECTORIES))))))
     else Some (Dict (path_name root_path) ''file'' root_path []
                  (if extension root_path \<in> set CODE_EXTENSIONS then count_lines fs root_path else 0)
                  False))"
  by pat_completeness auto
termination
  by (relation "measure (\<lambda>(fs, p, d, h, c). nat (d + 1 - c))") auto

declare analyze_directory.simps [simp del]

section \<open>Statistics aggregator\<close>

record stats =
  total_files :: int
  code_files :: int
  total_lines :: int
  directories :: int
  by_language :: "(string \<times> int) list"

text \<open>
  A dict from strings to integers in insertion order: \<open>d.get(k, dflt)\<close>,
  \<open>d[k] = v\<close>, and the update \<open>d[k] = d.get(k, 0) + v\<close> of the script.
\<close>

definition dict_get :: "(string \<times> int) list \<Rightarrow> string \<Rightarrow> int \<Rightarrow> int" where
  "dict_get d k dflt = (case map_of d k of Some v \<Rightarrow> v | None \<Rightarrow> dflt)"

fun dict_set :: "(string \<times> int) list \<Rightarrow> string \<Rightarrow> int \<Rightarrow> (string \<times> int) list" where
  "dict_set [] k v = [(k, v)]"
| "dict_set ((k', v') # d) k v = (if k' = k then (k, v) # d else (k', v') # dict_set d k v)"

definition dict_add :: "(string \<times> int) list \<Rightarrow> string \<Rightarrow> int \<Rightarrow> (string \<times> int) list" where
  "dict_add d k v = dict_set d k (dict_get d k 0 + v)"

fun traverse :: "item \<Rightarrow> stats \<Rightarrow> stats" where
  "traverse (Str s) st = st"
| "traverse (Dict n t p cs l k) st =
    (if t = ''dir''
     then fold traverse cs (st\<lparr>directories := directories st + 1\<rparr>)
     else (let st1 = st\<lparr>total_files := total_files st + 1\<rparr> in
           if l > 0
           then st1\<lparr>code_files := code_files st1 + 1,
                    total_lines := total_lines st1 + l,
                    by_language := dict_add (by_language st1) (extension p) l\<rparr>
           else st1))"

definition calculate_stats :: "item \<Rightarrow> stats" where
  "calculate_stats structure =
     traverse structure \<lparr>total_files = 0, code_files = 0, total_lines = 0, directories = 0, by_language = []\<rparr>"

section \<open>Vocabulary of the properties\<close>

text \<open>The dicts among a list of optional results, in order.\<close>

definition somes :: "'a option list \<Rightarrow> 'a list" where
  "somes rs = concat (map (\<lambda>r. case r of None \<Rightarrow> [] | Some c \<Rightarrow> [c]) rs)"

text \<open>The two shapes of dict that \<open>analyze_directory\<close> returns, and the children of a listed directory.\<close>

definition dir_node :: "path \<Rightarrow> item list \<Rightarrow> int \<Rightarrow> item" where
  "dir_node p cs l = Dict (path_name p) ''dir'' p cs l (lower (path_name p) \<in> set (map fst KEY_DIRECTORIES))"

definition file_node :: "filesystem \<Rightarrow> path \<Rightarrow> item" where
  "file_node fs p = Dict (path_name p) ''file'' p []
     (if extension p \<in> set CODE_EXTENSIONS then count_lines fs p else 0) False"

definition kids :: "filesystem \<Rightarrow> path list \<Rightarrow> int \<Rightarrow> bool \<Rightarrow> int \<Rightarrow> item list" where
  "kids fs listing d h c = somes (map (\<lambda>x. analyze_directory fs x d h (c + 1)) (sort_items fs listing))"

text \<open>A name is hidden when the hidden rule of the builder applies to it.\<close>

definition hidden_name :: "string \<Rightarrow> bool" where
  "hidden_name n = (startswith n ''.'' \<and> n \<noteq> ''.'')"

text \<open>All nodes (dicts) of a tree, the root first; markers are not nodes.\<close>

fun nodes :: "item \<Rightarrow> item list" where
  "nodes (Str s) = []"
| "nodes (Dict n t p cs l k) = Dict n t p cs l k # concat (map nodes cs)"

text \<open>The depth of every node of a tree whose root lies at depth \<open>k\<close>.\<close>

fun node_depths :: "nat \<Rightarrow> item \<Rightarrow> nat list" where
  "node_depths k (Str s) = []"
| "node_depths k (Dict n t p cs l key) = k # concat (map (node_depths (Suc k)) cs)"

text \<open>The rollup rule at one node: a directory carries the sum of its direct children.\<close>

definition rollup :: "item \<Rightarrow> bool" where
  "rollup n = (node_type n = ''dir'' \<longrightarrow> line_count n = sum_list (map get_line_count (children n)))"

subsection \<open>The project of the scenario\<close>

text \<open>
  A root \<open>/proj\<close> with \<open>src/a.py\<close> (10 lines), \<open>src/b.py\<close> (5 lines), \<open>README.md\<close>
  (3 lines) and an empty \<open>node_modules\<close>; the listings come unsorted.
\<close>

definition scenario_fs :: filesystem where
  "scenario_fs = \<lparr>
     is_dir = (\<lambda>p. p \<in> set [''/proj'', ''/proj/src'', ''/proj/node_modules'']),
     iterdir = (\<lambda>p. if p = ''/proj'' then Some [''/proj/README.md'', ''/proj/src'', ''/proj/node_modules'']
                     else if p = ''/proj/src'' then Some [''/proj/src/b.py'', ''/proj/src/a.py'']
                     else if p = ''/proj/node_modules'' then Some []
                     else None),
     read_lines = (\<lambda>p. if p = ''/proj/src/a.py'' then Some 10
                     else if p = ''/proj/src/b.py'' then Some 5
                     else if p = ''/proj/README.md'' then Some 3
                     else None)\<rparr>"

definition scenario_tree :: item where
  "scenario_tree =
     Dict ''proj'' ''dir'' ''/proj''
       [Dict ''node_modules'' ''dir'' ''/proj/node_modules'' [Str ''<skipped>''] 0 True,
        Dict ''src'' ''dir'' ''/proj/src''
          [Dict ''a.py'' ''file'' ''/proj/src/a.py'' [] 10 False,
           Dict ''b.py'' ''file'' ''/proj/src/b.py'' [] 5 False]
          15 True,
        Dict ''README.md'' ''file'' ''/proj/README.md'' [] 0 False]
       15 False"

text \<open>
  The order of a \<open>children\<close> list: no file before a directory, and the names of
  the directories and of the files each ascending. \<open>child_key\<close> is the sort key of
  the builder read off a node.
\<close>

definition child_key :: "item \<Rightarrow> bool \<times> string" where
  "child_key c = (node_type c \<noteq> ''dir'', node_name c)"

definition dirs_first :: "item list \<Rightarrow> bool" where
  "dirs_first cs = sorted_wrt (\<lambda>a b. node_type a = ''dir'' \<or> node_type b \<noteq> ''dir'') cs"

definition ordered_children :: "item list \<Rightarrow> bool" where
  "ordered_children cs =
     (dirs_first cs \<and>
      sorted (map node_name [c \<leftarrow> cs. node_type c = ''dir'']) \<and>
      sorted (map node_name [c \<leftarrow> cs. node_type c \<noteq> ''dir'']))"

subsection \<open>A project with hidden entries\<close>

text \<open>
  A root \<open>/proj\<close> with the files \<open>main.py\<close> and \<open>.gitignore\<close> and the directories
  \<open>.git\<close> and \<open>node_modules\<close>, and the tree built from it without hidden entries.
\<close>

definition dotfiles_fs :: filesystem where
  "dotfiles_fs = \<lparr>
     is_dir = (\<lambda>p. p \<in> set [''/proj'', ''/proj/.git'', ''/proj/node_modules'']),
     iterdir = (\<lambda>p. if p = ''/proj'' then Some [''/proj/main.py'', ''/proj/.gitignore'', ''/proj/.git'', ''/proj/node_modules'']
                     else if p = ''/proj/.git'' then Some [''/proj/.git/HEAD'']
                     else if p = ''/proj/node_modules'' then Some []
                     else None),
     read_lines = (\<lambda>p. if p = ''/proj/main.py'' then Some 4
                     else if p = ''/proj/.gitignore'' then Some 2
                     else if p = ''/proj/.git/HEAD'' then Some 1
                     else None)\<rparr>"

definition dotfiles_tree :: item where
  "dotfiles_tree =
     Dict ''proj'' ''dir'' ''/proj''
       [Dict ''node_modules'' ''dir'' ''/proj/node_modules'' [Str ''<skipped>''] 0 True,
        Dict ''.gitignore'' ''file'' ''/proj/.gitignore'' [] 0 False,
        Dict ''main.py'' ''file'' ''/proj/main.py'' [] 4 False]
       4 False"

subsection \<open>A hidden root\<close>

text \<open>The directory \<open>/home/u/.config\<close> holding one file \<open>app.json\<close> of 7 lines.\<close>

definition dot_root_fs :: filesystem where
  "dot_root_fs = \<lparr>
     is_dir = (\<lambda>p. p = ''/home/u/.config''),
     iterdir = (\<lambda>p. if p = ''/home/u/.config'' then Some [''/home/u/.config/app.json''] else None),
     read_lines = (\<lambda>p. if p = ''/home/u/.config/app.json'' then Some 7 else None)\<rparr>"

subsection \<open>A root with one subdirectory\<close>

text \<open>The directory \<open>/top\<close> holding the directory \<open>sub\<close>, which holds \<open>x.py\<close> of 8 lines.\<close>

definition one_subdir_fs :: filesystem where
  "one_subdir_fs = \<lparr>
     is_dir = (\<lambda>p. p \<in> set [''/top'', ''/top/sub'']),
     iterdir = (\<lambda>p. if p = ''/top'' then Some [''/top/sub'']
                     else if p = ''/top/sub'' then Some [''/top/sub/x.py'']
                     else None),
     read_lines = (\<lambda>p. if p = ''/top/sub/x.py'' then Some 8 else None)\<rparr>"

subsection \<open>A root in the skip set\<close>

text \<open>The directory \<open>/w/build\<close> holding the directory \<open>sub\<close>, which holds \<open>x.py\<close> of 8 lines.\<close>

definition skip_root_fs :: filesystem where
  "skip_root_fs = \<lparr>
     is_dir = (\<lambda>p. p \<in> set [''/w/build'', ''/w/build/sub'']),
     iterdir = (\<lambda>p. if p = ''/w/build'' then Some [''/w/build/sub'']
                     else if p = ''/w/build/sub'' then Some [''/w/build/sub/x.py'']
                     else None),
     read_lines = (\<lambda>p. if p = ''/w/build/sub/x.py'' then Some 8 else None)\<rparr>"

subsection \<open>A single file\<close>

text \<open>The file \<open>/tmp/Main.PY\<close> of 7 lines, its extension in capitals.\<close>

definition single_file_fs :: filesystem where
  "single_file_fs = \<lparr>
     is_dir = (\<lambda>p. False),
     iterdir = (\<lambda>p. None),
     read_lines = (\<lambda>p. if p = ''/tmp/Main.PY'' then Some 7 else None)\<rparr>"

subsection \<open>A project with a skipped, a denied and a deep directory\<close>

text \<open>
  A root \<open>/proj\<close> with the directories \<open>build\<close> (in the skip set), \<open>private\<close>
  (listing it raises \<open>PermissionError\<close>) and \<open>deep\<close> (holding \<open>a.py\<close>).
\<close>

definition denied_fs :: filesystem where
  "denied_fs = \<lparr>
     is_dir = (\<lambda>p. p \<in> set [''/proj'', ''/proj/build'', ''/proj/private'', ''/proj/deep'']),
     iterdir = (\<lambda>p. if p = ''/proj'' then Some [''/proj/private'', ''/proj/deep'', ''/proj/build'']
                     else if p = ''/proj/build'' then Some [''/proj/build/out.js'']
                     else if p = ''/proj/deep'' then Some [''/proj/deep/a.py'']
                     else None),
     read_lines = (\<lambda>p. if p = ''/proj/build/out.js'' then Some 100
                     else if p = ''/proj/deep/a.py'' then Some 6
                     else None)\<rparr>"

subsection \<open>The scenario with an unreadable file\<close>

text \<open>The project of the scenario, where reading \<open>src/b.py\<close> raises.\<close>

definition unreadable_fs :: filesystem where
  "unreadable_fs = scenario_fs\<lparr>read_lines := (read_lines scenario_fs)(''/proj/src/b.py'' := None)\<rparr>"

section \<open>JSON projection\<close>

text \<open>
  Modelled from the spec: the JSON projection of section 4.5 and the parse that
  gives the tree back to the aggregator are \<open>json.dump\<close> (called in \<open>main\<close>) and
  \<open>json.load\<close> of the standard library, not code of the script. They are taken at the
  level of JSON values: a dict is an object with its keys in insertion order, a
  list an array, \<open>str\<close>, \<open>int\<close> and \<open>bool\<close> a string, a number and a boolean, and a
  parsed document is again such a value.
\<close>

datatype json =
    JNull
  | JBool bool
  | JInt int
  | JStr string
  | JArr "json list"
  | JObj "(string \<times> json) list"

text \<open>
  Modelled from the spec: the JSON projection itself (the value \<open>json.dump\<close>
  writes for a tree, which the script leaves to the standard library): a marker
  is a string, a node an object of its six keys, each field kept as it is.
\<close>

fun to_json :: "item \<Rightarrow> json" where
  "to_json (Str s) = JStr s"
| "to_json (Dict n t p cs l k) =
     JObj [(''name'', JStr n), (''type'', JStr t), (''path'', JStr p),
           (''children'', JArr (map to_json cs)), (''line_count'', JInt l), (''is_key'', JBool k)]"

text \<open>A value looked up in an object is smaller than the object (for the termination below).\<close>

lemma map_of_size:
  "map_of kv k = Some v \<Longrightarrow> size v < Suc (size_list (size_prod (\<lambda>_. 0) size) kv)"
  by (induction kv) (auto split: if_splits)

text \<open>
  Modelled from the spec: re-deriving the statistics from a parsed document,
  which no code of the script does. It is \<open>calculate_stats\<close> run on the parsed
  value: the same statements as \<open>traverse\<close>, reading the keys \<open>type\<close>, \<open>children\<close>
  (default \<open>[]\<close>), \<open>line_count\<close> and \<open>path\<close> of an object. \<open>None\<close> stands for the
  script raising on a value of another shape.
\<close>

function traverse_json :: "json \<Rightarrow> stats \<Rightarrow> stats option"
  and traverse_jsons :: "json list \<Rightarrow> stats \<Rightarrow> stats option" where
  "traverse_json (JStr s) st = Some st"
| "traverse_json (JObj kv) st =
    (case map_of kv ''type'' of
       None \<Rightarrow> None
     | Some t \<Rightarrow>
        if t = JStr ''dir''
        then (case map_of kv ''children'' of
                None \<Rightarrow> Some (st\<lparr>directories := directories st + 1\<rparr>)
              | Some (JArr cs) \<Rightarrow> traverse_jsons cs (st\<lparr>directories := directories st + 1\<rparr>)
              | Some _ \<Rightarrow> None)
        else (case map_of kv ''line_count'' of
                Some (JInt l) \<Rightarrow>
                  (let st1 = st\<lparr>total_files := total_files st + 1\<rparr> in
                   if l > 0
                   then (case map_of kv ''path'' of
                           Some (JStr p) \<Rightarrow>
                             Some (st1\<lparr>code_files := code_files st1 + 1,
                                       total_lines := total_lines st1 + l,
                                       by_language := dict_add (by_language st1) (extension p) l\<rparr>)
                         | _ \<Rightarrow> None)
                   else Some st1)
              | _ \<Rightarrow> None))"
| "traverse_json JNull st = None"
| "traverse_json (JBool b) st = None"
| "traverse_json (JInt i) st = None"
| "traverse_json (JArr js) st = None"
| "traverse_jsons [] st = Some st"
| "traverse_jsons (j # js) st =
    (case traverse_json j st of
       None \<Rightarrow> None
     | Some st' \<Rightarrow> traverse_jsons js st')"
  by pat_completeness auto
termination
  by (relation "measure (\<lambda>x. case x of Inl (j, st) \<Rightarrow> size j | Inr (js, st) \<Rightarrow> size_list size js)")
     (auto dest!: map_of_size)

text \<open>Modelled from the spec: \<open>calculate_stats\<close> on a parsed document, from the empty statistics.\<close>

definition calculate_stats_json :: "json \<Rightarrow> stats option" where
  "calculate_stats_json structure =
     traverse_json structure \<lparr>total_files = 0, code_files = 0, total_lines = 0, directories = 0, by_language = []\<rparr>"

section \<open>Basic facts about the builder\<close>

lemmas string_ops =
  path_name_def startswith_def skip_dirs_def sort_items_def KEY_DIRECTORIES_def lower_def
  lower_char_def extension_def path_suffix_def rfind_dot_def lstrip_dot_def CODE_EXTENSIONS_def
  count_lines_def

lemma somes_simps [simp]:
  "somes [] = []" "somes (None # rs) = somes rs" "somes (Some c # rs) = c # somes rs"
  by (simp_all add: somes_def)

lemma set_somes: "k \<in> set (somes rs) \<longleftrightarrow> Some k \<in> set rs"
  by (induction rs) (auto split: option.splits simp: somes_def)

lemma collect_somes:
  "collect rs (cs, lc) = (cs @ somes rs, lc + sum_list (map get_line_count (somes rs)))"
proof (induction rs arbitrary: cs lc)
  case Nil
  show ?case by simp
next
  case (Cons r rs)
  show ?case
  proof (cases r)
    case None
    with Cons show ?thesis by simp
  next
    case (Some c)
    with Cons show ?thesis by simp
  qed
qed

lemma kids_mem:
  "k \<in> set (kids fs listing d h c) \<Longrightarrow>
     \<exists>x \<in> set (sort_items fs listing). analyze_directory fs x d h (c + 1) = Some k"
  by (auto simp: kids_def set_somes)

text \<open>Every way in which the builder returns a node.\<close>

lemma analyze_cases:
  assumes "analyze_directory fs p d h c = Some t"
  shows "c \<le> d \<and>
    ((\<not> is_dir fs p \<and> t = file_node fs p) \<or>
     (is_dir fs p \<and> (h \<or> \<not> hidden_name (path_name p)) \<and>
       ((path_name p \<in> set skip_dirs \<and> t = dir_node p [Str ''<skipped>''] 0) \<or>
        (path_name p \<notin> set skip_dirs \<and> iterdir fs p = None \<and> t = dir_node p [Str ''<permission denied>''] 0) \<or>
        (path_name p \<notin> set skip_dirs \<and> (\<exists>listing. iterdir fs p = Some listing \<and>
           t = dir_node p (kids fs listing d h c) (sum_list (map get_line_count (kids fs listing d h c))))))))"
  using assms
  by (subst (asm) analyze_directory.simps)
     (auto simp: collect_somes dir_node_def file_node_def kids_def hidden_name_def Let_def
           split: if_splits option.splits)

text \<open>
  Induction over a build: the nodes without descended children, and a listed
  directory whose children are the results of the builder one level down.
  The recursion ends because \<open>max_depth + 1 - current_depth\<close> falls.
\<close>

lemma build_induct [consumes 1, case_names leaf listed]:
  assumes built: "analyze_directory fs p d h c = Some t"
    and leaf: "\<And>p c t. c \<le> d \<Longrightarrow>
        (\<not> is_dir fs p \<and> t = file_node fs p) \<or>
        (is_dir fs p \<and> (h \<or> \<not> hidden_name (path_name p)) \<and>
          (path_name p \<in> set skip_dirs \<and> t = dir_node p [Str ''<skipped>''] 0 \<or>
           path_name p \<notin> set skip_dirs \<and> iterdir fs p = None \<and> t = dir_node p [Str ''<permission denied>''] 0))
        \<Longrightarrow> P p c t"
    and listed: "\<And>p c listing. c \<le> d \<Longrightarrow> is_dir fs p \<Longrightarrow> h \<or> \<not> hidden_name (path_name p) \<Longrightarrow>
        path_name p \<notin> set skip_dirs \<Longrightarrow> iterdir fs p = Some listing \<Longrightarrow>
        (\<And>x k. x \<in> set (sort_items fs listing) \<Longrightarrow> analyze_directory fs x d h (c + 1) = Some k \<Longrightarrow> P x (c + 1) k)
        \<Longrightarrow> P p c (dir_node p (kids fs listing d h c) (sum_list (map get_line_count (kids fs listing d h c))))"
  shows "P p c t"
  using built
proof (induction "nat (d + 1 - c)" arbitrary: p c t rule: less_induct)
  case less
  note cs = analyze_cases [OF less.prems]
  show ?case
  proof (cases "is_dir fs p \<and> path_name p \<notin> set skip_dirs \<and> iterdir fs p \<noteq> None")
    case False
    with cs show ?thesis
      by (intro leaf) auto
  next
    case True
    with cs obtain listing where l: "iterdir fs p = Some listing"
      and t: "t = dir_node p (kids fs listing d h c) (sum_list (map get_line_count (kids fs listing d h c)))"
      by auto
    from cs have cd: "c \<le> d" by simp
    then have smaller: "nat (d + 1 - (c + 1)) < nat (d + 1 - c)" by simp
    have sub: "P x (c + 1) k"
      if "x \<in> set (sort_items fs listing)" "analyze_directory fs x d h (c + 1) = Some k" for x k
      using less.hyps [OF smaller that(2)] .
    show ?thesis unfolding t
      using cs True l sub by (intro listed) auto
  qed
qed

text \<open>The build of the scenario, for every depth bound from 2 on and either flag.\<close>

lemma scenario_build:
  "2 \<le> d \<Longrightarrow> analyze_directory scenario_fs ''/proj'' d h 0 = Some scenario_tree"
  by (simp add: analyze_directory.simps scenario_fs_def scenario_tree_def string_ops)

section \<open>Rollup of line counts\<close>

text \<open>
  Claim C1. In every tree the builder returns, whatever the root path, the depth
  bound, the hidden flag and the starting depth, every node of type \<open>dir\<close> has a
  \<open>line_count\<close> equal to the sum of the \<open>line_count\<close> of its direct children (a
  marker counts 0); as this holds at every node, it holds recursively.
\<close>

theorem rollup_invariant:
  "analyze_directory fs root_path max_depth include_hidden current_depth = Some t
     \<Longrightarrow> \<forall>n \<in> set (nodes t). rollup n"
proof (induction root_path current_depth t rule: build_induct)
  case (leaf p c t)
  then show ?case by (auto simp: rollup_def dir_node_def file_node_def)
next
  case (listed p c listing)
  then show ?case
    by (auto simp: rollup_def dir_node_def dest!: kids_mem)
qed

theorem rollup_invariant_witness:
  "analyze_directory scenario_fs ''/proj'' 3 False 0 = Some scenario_tree
     \<and> list_all rollup (nodes scenario_tree)"
proof -
  have built: "analyze_directory scenario_fs ''/proj'' 3 False 0 = Some scenario_tree"
    by (simp add: scenario_build)
  from rollup_invariant [OF built] built show ?thesis by (simp add: list_all_iff)
qed

section \<open>Order of the children\<close>

lemma sorted_keys_ordered: "sorted (map child_key cs) \<Longrightarrow> ordered_children cs"
  by (induction cs) (auto simp: ordered_children_def dirs_first_def child_key_def)

lemma analyze_shape:
  assumes "analyze_directory fs x d h c = Some k"
  shows "\<not> is_Str k \<and> child_key k = (\<not> is_dir fs x, path_name x)"
  using analyze_cases [OF assms] by (auto simp: child_key_def dir_node_def file_node_def)

lemma somes_map_keys:
  assumes "\<And>x k. x \<in> set xs \<Longrightarrow> f x = Some k \<Longrightarrow> g k = key x"
  shows "map g (somes (map f xs)) = map key [x \<leftarrow> xs. f x \<noteq> None]"
  using assms by (induction xs) (auto split: option.splits)

text \<open>The children of a listed directory are a part of the sorted listing, so they are sorted by its key.\<close>

lemma kids_keys_sorted: "sorted (map child_key (kids fs listing d h c))"
proof -
  let ?key = "\<lambda>x. (\<not> is_dir fs x, path_name x)"
  have "map child_key (kids fs listing d h c)
      = map ?key [x \<leftarrow> sort_items fs listing. analyze_directory fs x d h (c + 1) \<noteq> None]"
    unfolding kids_def by (rule somes_map_keys) (simp add: analyze_shape)
  moreover have "sorted (map ?key (sort_items fs listing))"
    by (simp add: sort_items_def)
  ultimately show ?thesis by (simp add: sorted_filter)
qed

text \<open>
  Claim C5. In every tree the builder returns, at every node whose \<open>children\<close>
  list holds nodes and no marker, all children of type \<open>dir\<close> come before all
  others, and the names within the directories and within the files ascend
  (strings compared by code point). A file node has no children, so the
  statement is about the directory nodes.
\<close>

theorem children_ordered:
  "analyze_directory fs root_path max_depth include_hidden current_depth = Some t
     \<Longrightarrow> \<forall>n \<in> set (nodes t). list_all (\<lambda>c. \<not> is_Str c) (children n) \<longrightarrow> ordered_children (children n)"
proof (induction root_path current_depth t rule: build_induct)
  case (leaf p c t)
  then show ?case by (auto simp: dir_node_def file_node_def ordered_children_def dirs_first_def)
next
  case (listed p c listing)
  have "ordered_children (kids fs listing max_depth include_hidden c)"
    by (rule sorted_keys_ordered [OF kids_keys_sorted])
  with listed show ?case
    by (auto simp: dir_node_def dest!: kids_mem)
qed

theorem children_ordered_witness:
  "analyze_directory scenario_fs ''/proj'' 3 False 0 = Some scenario_tree
     \<and> list_all (\<lambda>c. \<not> is_Str c) (children scenario_tree)
     \<and> ordered_children (children scenario_tree)
     \<and> map node_name (children scenario_tree) = [''node_modules'', ''src'', ''README.md'']"
proof -
  have built: "analyze_directory scenario_fs ''/proj'' 3 False 0 = Some scenario_tree"
    by (simp add: scenario_build)
  have root: "scenario_tree \<in> set (nodes scenario_tree)"
    by (simp add: scenario_tree_def)
  have present: "list_all (\<lambda>c. \<not> is_Str c) (children scenario_tree)"
    by (simp add: scenario_tree_def)
  from children_ordered [OF built] root present have "ordered_children (children scenario_tree)"
    by blast
  with built present show ?thesis by (simp add: scenario_tree_def)
qed

section \<open>Hidden entries\<close>

lemma dotfiles_build:
  "analyze_directory dotfiles_fs ''/proj'' 3 False 0 = Some dotfiles_tree"
  by (simp add: analyze_directory.simps dotfiles_fs_def dotfiles_tree_def string_ops)

lemma no_hidden_dirs:
  "analyze_directory fs p d False c = Some t \<Longrightarrow>
     \<forall>n \<in> set (nodes t). node_type n = ''dir'' \<longrightarrow> \<not> hidden_name (node_name n)"
proof (induction p c t rule: build_induct)
  case (leaf p c t)
  then show ?case by (auto simp: dir_node_def file_node_def)
next
  case (listed p c listing)
  then show ?case by (auto simp: dir_node_def dest!: kids_mem)
qed

lemma built_is_dict:
  "analyze_directory fs p d h c = Some t \<Longrightarrow> nodes t = t # concat (map nodes (children t))"
  by (drule analyze_cases) (auto simp: dir_node_def file_node_def)

text \<open>
  Claim C3, as stated, fails: the hidden rule stands in the directory branch of
  the builder, so a hidden file is kept. Built without hidden entries, the
  project above has a node for \<open>.gitignore\<close>.
\<close>

theorem hidden_file_counterexample:
  "analyze_directory dotfiles_fs ''/proj'' 3 False 0 =
     Some (Dict ''proj'' ''dir'' ''/proj''
       [Dict ''node_modules'' ''dir'' ''/proj/node_modules'' [Str ''<skipped>''] 0 True,
        Dict ''.gitignore'' ''file'' ''/proj/.gitignore'' [] 0 False,
        Dict ''main.py'' ''file'' ''/proj/main.py'' [] 4 False]
       4 False)
   \<and> startswith ''.gitignore'' ''.''"
  by (simp add: analyze_directory.simps dotfiles_fs_def string_ops)

text \<open>Every file that a listed directory holds, hidden or not, is among its children, as long as the depth bound allows a child.\<close>

lemma files_kept:
  assumes built: "analyze_directory fs p d h c = Some t"
    and dir: "is_dir fs p" "path_name p \<notin> set skip_dirs" "iterdir fs p = Some listing"
    and x: "x \<in> set listing" "\<not> is_dir fs x" "c < d"
  shows "Dict (path_name x) ''file'' x []
           (if extension x \<in> set CODE_EXTENSIONS then count_lines fs x else 0) False
         \<in> set (children t)"
proof -
  from analyze_cases [OF built] dir
  have t: "t = dir_node p (kids fs listing d h c) (sum_list (map get_line_count (kids fs listing d h c)))"
    by auto
  from x have "analyze_directory fs x d h (c + 1) = Some (file_node fs x)"
    by (simp add: analyze_directory.simps file_node_def)
  with x(1) have "file_node fs x \<in> set (kids fs listing d h c)"
    by (simp add: kids_def set_somes sort_items_def image_iff) metis
  then show ?thesis by (simp add: t dir_node_def file_node_def)
qed

text \<open>
  Claim C3, amended. With \<open>include_hidden = False\<close>, no node of type \<open>dir\<close> below
  the root of the built tree has a hidden name (one that begins with a dot);
  hidden files are not dropped: every file that a listed directory holds,
  whatever its name, is a node of type \<open>file\<close> among the children of that
  directory when the depth bound allows a child. The statement holds for a
  build from any path and depth, so for every directory the builder visits.
\<close>

theorem hidden_directories_absent:
  assumes "analyze_directory fs root_path max_depth False current_depth = Some t"
  shows "(\<forall>n \<in> set (concat (map nodes (children t))). node_type n = ''dir'' \<longrightarrow> \<not> hidden_name (node_name n))
    \<and> (is_dir fs root_path \<and> path_name root_path \<notin> set skip_dirs \<and> iterdir fs root_path = Some listing
         \<and> x \<in> set listing \<and> \<not> is_dir fs x \<and> current_depth < max_depth
        \<longrightarrow> Dict (path_name x) ''file'' x []
              (if extension x \<in> set CODE_EXTENSIONS then count_lines fs x else 0) False
            \<in> set (children t))"
proof (intro conjI impI)
  have "set (concat (map nodes (children t))) \<subseteq> set (nodes t)"
    using built_is_dict [OF assms] by auto
  with no_hidden_dirs [OF assms]
  show "\<forall>n \<in> set (concat (map nodes (children t))). node_type n = ''dir'' \<longrightarrow> \<not> hidden_name (node_name n)"
    by blast
next
  assume "is_dir fs root_path \<and> path_name root_path \<notin> set skip_dirs \<and> iterdir fs root_path = Some listing
         \<and> x \<in> set listing \<and> \<not> is_dir fs x \<and> current_depth < max_depth"
  with assms show "Dict (path_name x) ''file'' x []
              (if extension x \<in> set CODE_EXTENSIONS then count_lines fs x else 0) False
            \<in> set (children t)"
    by (intro files_kept) auto
qed

theorem hidden_directories_absent_witness:
  "analyze_directory dotfiles_fs ''/proj'' 3 False 0 = Some dotfiles_tree
   \<and> list_all (\<lambda>n. node_type n \<noteq> ''dir'' \<or> \<not> hidden_name (node_name n))
        (concat (map nodes (children dotfiles_tree)))
   \<and> is_dir dotfiles_fs ''/proj'' \<and> path_name ''/proj'' \<notin> set skip_dirs
   \<and> iterdir dotfiles_fs ''/proj'' =
        Some [''/proj/main.py'', ''/proj/.gitignore'', ''/proj/.git'', ''/proj/node_modules'']
   \<and> \<not> is_dir dotfiles_fs ''/proj/.gitignore'' \<and> hidden_name (path_name ''/proj/.gitignore'')
   \<and> Dict ''.gitignore'' ''file'' ''/proj/.gitignore'' [] 0 False \<in> set (children dotfiles_tree)"
proof -
  have built: "analyze_directory dotfiles_fs ''/proj'' 3 False 0 = Some dotfiles_tree"
    by (rule dotfiles_build)
  have pre: "is_dir dotfiles_fs ''/proj'' \<and> path_name ''/proj'' \<notin> set skip_dirs
      \<and> iterdir dotfiles_fs ''/proj'' =
        Some [''/proj/main.py'', ''/proj/.gitignore'', ''/proj/.git'', ''/proj/node_modules'']
      \<and> ''/proj/.gitignore'' \<in> set [''/proj/main.py'', ''/proj/.gitignore'', ''/proj/.git'', ''/proj/node_modules'']
      \<and> \<not> is_dir dotfiles_fs ''/proj/.gitignore'' \<and> (0::int) < 3"
    by (simp add: dotfiles_fs_def path_name_def skip_dirs_def)
  have hid: "hidden_name (path_name ''/proj/.gitignore'')"
    by (simp add: hidden_name_def path_name_def startswith_def)
  note inst = hidden_directories_absent [OF built,
      of "[''/proj/main.py'', ''/proj/.gitignore'', ''/proj/.git'', ''/proj/node_modules'']" "''/proj/.gitignore''"]
  from inst have dirs: "list_all (\<lambda>n. node_type n \<noteq> ''dir'' \<or> \<not> hidden_name (node_name n))
        (concat (map nodes (children dotfiles_tree)))"
    by (auto simp: list_all_iff)
  from inst pre have "Dict (path_name ''/proj/.gitignore'') ''file'' ''/proj/.gitignore'' []
        (if extension ''/proj/.gitignore'' \<in> set CODE_EXTENSIONS
         then count_lines dotfiles_fs ''/proj/.gitignore'' else 0) False
      \<in> set (children dotfiles_tree)"
    by blast
  moreover have "path_name ''/proj/.gitignore'' = ''.gitignore''"
    by (simp add: path_name_def)
  moreover have "extension ''/proj/.gitignore'' = []"
    by (simp add: string_ops)
  moreover have "[] \<notin> set CODE_EXTENSIONS"
    by (simp add: CODE_EXTENSIONS_def)
  ultimately have kept: "Dict ''.gitignore'' ''file'' ''/proj/.gitignore'' [] 0 False \<in> set (children dotfiles_tree)"
    by simp
  from built dirs pre hid kept show ?thesis by simp
qed

text \<open>
  Claim C9: the root is not exempt from the hidden rule. The guard compares the
  name with \<open>.\<close>, which the name of a resolved root never is: for the root
  directory \<open>/home/u/.config\<close> and \<open>include_hidden = False\<close> the builder returns
  no node.
\<close>

theorem hidden_root_dropped:
  "is_dir dot_root_fs ''/home/u/.config''
   \<and> analyze_directory dot_root_fs ''/home/u/.config'' 3 False 0 = None"
  by (simp add: analyze_directory.simps dot_root_fs_def string_ops)

section \<open>A file as root\<close>

text \<open>
  Claim C10, as stated, fails: the depth check comes before everything else, so
  with the depth bound \<open>-1\<close> (which \<open>--max-depth -1\<close> gives) the builder returns
  no node for a file root.
\<close>

theorem file_root_negative_depth_counterexample:
  "\<not> is_dir single_file_fs ''/tmp/Main.PY''
   \<and> analyze_directory single_file_fs ''/tmp/Main.PY'' (- 1) False 0 = None"
  by (simp add: analyze_directory.simps single_file_fs_def)

text \<open>
  Claim C10, amended. When the root path is not a directory and the depth bound
  is not negative, the builder returns one node of type \<open>file\<close> with no children
  and \<open>is_key = False\<close>, whose \<open>line_count\<close> is the counted lines when the
  extension (in lower case) is countable and 0 otherwise; its statistics have
  0 directories and 1 file.
\<close>

theorem file_root:
  assumes "\<not> is_dir fs root_path" and "0 \<le> max_depth"
  shows "analyze_directory fs root_path max_depth include_hidden 0 =
      Some (Dict (path_name root_path) ''file'' root_path []
              (if extension root_path \<in> set CODE_EXTENSIONS then count_lines fs root_path else 0) False)
    \<and> map_option (\<lambda>t. (directories (calculate_stats t), total_files (calculate_stats t)))
         (analyze_directory fs root_path max_depth include_hidden 0) = Some (0, 1)"
  using assms by (simp add: analyze_directory.simps calculate_stats_def Let_def)

theorem file_root_witness:
  "\<not> is_dir single_file_fs ''/tmp/Main.PY'' \<and> (0::int) \<le> 3
   \<and> extension ''/tmp/Main.PY'' = ''py''
   \<and> analyze_directory single_file_fs ''/tmp/Main.PY'' 3 False 0 =
        Some (Dict ''Main.PY'' ''file'' ''/tmp/Main.PY'' [] 7 False)
   \<and> map_option (\<lambda>t. (directories (calculate_stats t), total_files (calculate_stats t)))
         (analyze_directory single_file_fs ''/tmp/Main.PY'' 3 False 0) = Some (0, 1)"
proof -
  have f: "\<not> is_dir single_file_fs ''/tmp/Main.PY''" by (simp add: single_file_fs_def)
  have d: "(0::int) \<le> 3" by simp
  have e: "extension ''/tmp/Main.PY'' = ''py''" by code_simp
  from file_root [OF f d, of False] have
    "analyze_directory single_file_fs ''/tmp/Main.PY'' 3 False 0 =
      Some (Dict (path_name ''/tmp/Main.PY'') ''file'' ''/tmp/Main.PY'' []
              (if extension ''/tmp/Main.PY'' \<in> set CODE_EXTENSIONS
               then count_lines single_file_fs ''/tmp/Main.PY'' else 0) False)
     \<and> map_option (\<lambda>t. (directories (calculate_stats t), total_files (calculate_stats t)))
         (analyze_directory single_file_fs ''/tmp/Main.PY'' 3 False 0) = Some (0, 1)" .
  moreover have "path_name ''/tmp/Main.PY'' = ''Main.PY''"
    by (simp add: path_name_def)
  moreover have "count_lines single_file_fs ''/tmp/Main.PY'' = 7"
    by (simp add: count_lines_def single_file_fs_def)
  moreover have "''py'' \<in> set CODE_EXTENSIONS"
    by (simp add: CODE_EXTENSIONS_def)
  ultimately show ?thesis using f e by auto
qed

section \<open>Depth bound\<close>

lemma pruned: "d < c \<Longrightarrow> analyze_directory fs p d h c = None"
  by (simp add: analyze_directory.simps)

lemma kids_pruned: "d \<le> c \<Longrightarrow> kids fs listing d h c = []"
proof -
  assume "d \<le> c"
  then have "somes (map (\<lambda>x. analyze_directory fs x d h (c + 1)) xs) = []" for xs
    by (induction xs) (simp_all add: pruned)
  then show ?thesis by (simp add: kids_def)
qed

lemma listed_build:
  assumes "c \<le> d" "is_dir fs p" "h \<or> \<not> hidden_name (path_name p)"
    "path_name p \<notin> set skip_dirs" "iterdir fs p = Some listing"
  shows "analyze_directory fs p d h c =
    Some (dir_node p (kids fs listing d h c) (sum_list (map get_line_count (kids fs listing d h c))))"
  using assms
  by (subst analyze_directory.simps)
     (auto simp: collect_somes dir_node_def kids_def hidden_name_def Let_def)

lemma depth_all:
  "analyze_directory fs p d h c = Some t \<Longrightarrow> 0 \<le> c \<Longrightarrow> \<forall>k \<in> set (node_depths (nat c) t). int k \<le> d"
proof (induction p c t rule: build_induct)
  case (leaf p c t)
  then show ?case by (auto simp: dir_node_def file_node_def)
next
  case (listed p c listing)
  have "nat (c + 1) = Suc (nat c)" using listed.prems by simp
  with listed show ?case
    by (auto simp: dir_node_def dest!: kids_mem)
qed

text \<open>
  Claim C4, as stated, fails in its second part: the skip rule applies to the
  root as to any directory, so with \<open>max_depth = 0\<close> a root named \<open>build\<close> that
  holds one subdirectory comes back with the marker \<open><skipped>\<close> in its
  \<open>children\<close> list, which is not empty.
\<close>

theorem skip_root_counterexample:
  "is_dir skip_root_fs ''/w/build''
   \<and> iterdir skip_root_fs ''/w/build'' = Some [''/w/build/sub'']
   \<and> is_dir skip_root_fs ''/w/build/sub''
   \<and> analyze_directory skip_root_fs ''/w/build'' 0 False 0 =
        Some (Dict ''build'' ''dir'' ''/w/build'' [Str ''<skipped>''] 0 True)
   \<and> children (Dict ''build'' ''dir'' ''/w/build'' [Str ''<skipped>''] 0 True) \<noteq> []"
  by (simp add: analyze_directory.simps skip_root_fs_def string_ops)

text \<open>
  Claim C4, amended. In a tree built from depth 0 with bound \<open>max_depth\<close> no node
  lies deeper than \<open>max_depth\<close>. In particular, with \<open>max_depth = 0\<close>, a root
  directory that lists one subdirectory, whose own name is not in the skip set
  and to which the hidden rule does not apply, gives the root node alone with
  an empty \<open>children\<close> list, whatever the subdirectory holds.
\<close>

theorem depth_bound:
  "(analyze_directory fs root_path max_depth include_hidden 0 = Some t
      \<longrightarrow> (\<forall>k \<in> set (node_depths 0 t). int k \<le> max_depth))
   \<and> (is_dir fs root_path \<and> iterdir fs root_path = Some [sub] \<and> is_dir fs sub
        \<and> (include_hidden \<or> \<not> hidden_name (path_name root_path))
        \<and> path_name root_path \<notin> set skip_dirs
      \<longrightarrow> analyze_directory fs root_path 0 include_hidden 0 =
            Some (Dict (path_name root_path) ''dir'' root_path [] 0
                    (lower (path_name root_path) \<in> set (map fst KEY_DIRECTORIES))))"
proof (intro conjI impI)
  assume "analyze_directory fs root_path max_depth include_hidden 0 = Some t"
  from depth_all [OF this] show "\<forall>k \<in> set (node_depths 0 t). int k \<le> max_depth" by simp
next
  assume a: "is_dir fs root_path \<and> iterdir fs root_path = Some [sub] \<and> is_dir fs sub
        \<and> (include_hidden \<or> \<not> hidden_name (path_name root_path))
        \<and> path_name root_path \<notin> set skip_dirs"
  then have "analyze_directory fs root_path 0 include_hidden 0 =
    Some (dir_node root_path (kids fs [sub] 0 include_hidden 0)
            (sum_list (map get_line_count (kids fs [sub] 0 include_hidden 0))))"
    by (intro listed_build) auto
  then show "analyze_directory fs root_path 0 include_hidden 0 =
            Some (Dict (path_name root_path) ''dir'' root_path [] 0
                    (lower (path_name root_path) \<in> set (map fst KEY_DIRECTORIES)))"
    by (simp add: kids_pruned dir_node_def)
qed

theorem depth_bound_witness:
  "analyze_directory one_subdir_fs ''/top'' 1 False 0 =
      Some (Dict ''top'' ''dir'' ''/top'' [Dict ''sub'' ''dir'' ''/top/sub'' [] 0 False] 0 False)
   \<and> list_all (\<lambda>k. int k \<le> 1)
        (node_depths 0 (Dict ''top'' ''dir'' ''/top'' [Dict ''sub'' ''dir'' ''/top/sub'' [] 0 False] 0 False))
   \<and> is_dir one_subdir_fs ''/top'' \<and> iterdir one_subdir_fs ''/top'' = Some [''/top/sub'']
   \<and> is_dir one_subdir_fs ''/top/sub''
   \<and> \<not> hidden_name (path_name ''/top'') \<and> path_name ''/top'' \<notin> set skip_dirs
   \<and> analyze_directory one_subdir_fs ''/top'' 0 False 0 = Some (Dict ''top'' ''dir'' ''/top'' [] 0 False)"
proof -
  have built: "analyze_directory one_subdir_fs ''/top'' 1 False 0 =
      Some (Dict ''top'' ''dir'' ''/top'' [Dict ''sub'' ''dir'' ''/top/sub'' [] 0 False] 0 False)"
    by (simp add: analyze_directory.simps one_subdir_fs_def string_ops)
  have pre: "is_dir one_subdir_fs ''/top'' \<and> iterdir one_subdir_fs ''/top'' = Some [''/top/sub'']
      \<and> is_dir one_subdir_fs ''/top/sub''
      \<and> (False \<or> \<not> hidden_name (path_name ''/top'')) \<and> path_name ''/top'' \<notin> set skip_dirs"
    by (simp add: one_subdir_fs_def hidden_name_def string_ops)
  note thm1 = depth_bound [of one_subdir_fs "''/top''" 1 False
      "Dict ''top'' ''dir'' ''/top'' [Dict ''sub'' ''dir'' ''/top/sub'' [] 0 False] 0 False" "''/top/sub''"]
  note thm0 = depth_bound [of one_subdir_fs "''/top''" 0 False
      "Dict ''top'' ''dir'' ''/top'' [] 0 False" "''/top/sub''"]
  from thm1 built have bound: "list_all (\<lambda>k. int k \<le> 1)
        (node_depths 0 (Dict ''top'' ''dir'' ''/top'' [Dict ''sub'' ''dir'' ''/top/sub'' [] 0 False] 0 False))"
    by (simp add: list_all_iff)
  from thm0 pre have "analyze_directory one_subdir_fs ''/top'' 0 False 0 =
      Some (Dict (path_name ''/top'') ''dir'' ''/top'' [] 0
              (lower (path_name ''/top'') \<in> set (map fst KEY_DIRECTORIES)))"
    by blast
  then have root_only: "analyze_directory one_subdir_fs ''/top'' 0 False 0 = Some (Dict ''top'' ''dir'' ''/top'' [] 0 False)"
    by (simp add: string_ops)
  from built bound pre root_only show ?thesis by simp
qed

section \<open>Skipped, denied and pruned directories\<close>

text \<open>
  Claim C6, as stated, fails: \<open>.git\<close> is in the skip set, but the hidden rule
  comes first, so without hidden entries the directory \<open>.git\<close> of the project
  with hidden entries gets no node at all (while \<open>node_modules\<close> gets its marker).
\<close>

theorem git_dropped_counterexample:
  "''.git'' \<in> set skip_dirs \<and> is_dir dotfiles_fs ''/proj/.git''
   \<and> analyze_directory dotfiles_fs ''/proj/.git'' 3 False 1 = None
   \<and> analyze_directory dotfiles_fs ''/proj'' 3 False 0 =
     Some (Dict ''proj'' ''dir'' ''/proj''
       [Dict ''node_modules'' ''dir'' ''/proj/node_modules'' [Str ''<skipped>''] 0 True,
        Dict ''.gitignore'' ''file'' ''/proj/.gitignore'' [] 0 False,
        Dict ''main.py'' ''file'' ''/proj/main.py'' [] 4 False]
       4 False)"
  by (simp add: analyze_directory.simps dotfiles_fs_def string_ops)

text \<open>
  Claim C6, amended. For a directory visited within the depth bound and not
  dropped by the hidden rule: when its name is in the skip set, the builder
  returns its node with the marker \<open><skipped>\<close> in place of children; when its
  name is not in the skip set and listing it is denied, its node with the
  different marker \<open><permission denied>\<close>. Beyond the depth bound the builder
  returns no node, and a listed directory at the bound has an empty \<open>children\<close>
  list: skipped (present, marked) and pruned (absent) differ in the output.
\<close>

theorem markers_and_pruning:
  "(current_depth \<le> max_depth \<and> is_dir fs p \<and> (include_hidden \<or> \<not> hidden_name (path_name p))
      \<and> path_name p \<in> set skip_dirs
     \<longrightarrow> analyze_directory fs p max_depth include_hidden current_depth =
           Some (Dict (path_name p) ''dir'' p [Str ''<skipped>''] 0
                   (lower (path_name p) \<in> set (map fst KEY_DIRECTORIES))))
   \<and> (current_depth \<le> max_depth \<and> is_dir fs p \<and> (include_hidden \<or> \<not> hidden_name (path_name p))
      \<and> path_name p \<notin> set skip_dirs \<and> iterdir fs p = None
     \<longrightarrow> analyze_directory fs p max_depth include_hidden current_depth =
           Some (Dict (path_name p) ''dir'' p [Str ''<permission denied>''] 0
                   (lower (path_name p) \<in> set (map fst KEY_DIRECTORIES))))
   \<and> ''<skipped>'' \<noteq> ''<permission denied>''
   \<and> (max_depth < current_depth
     \<longrightarrow> analyze_directory fs p max_depth include_hidden current_depth = None)
   \<and> (current_depth = max_depth \<and> is_dir fs p \<and> (include_hidden \<or> \<not> hidden_name (path_name p))
      \<and> path_name p \<notin> set skip_dirs \<and> iterdir fs p = Some listing
     \<longrightarrow> analyze_directory fs p max_depth include_hidden current_depth =
           Some (Dict (path_name p) ''dir'' p [] 0
                   (lower (path_name p) \<in> set (map fst KEY_DIRECTORIES))))"
proof (intro conjI impI)
  show "''<skipped>'' \<noteq> ''<permission denied>''" by simp
next
  assume "max_depth < current_depth"
  then show "analyze_directory fs p max_depth include_hidden current_depth = None"
    by (rule pruned)
next
  assume "current_depth \<le> max_depth \<and> is_dir fs p \<and> (include_hidden \<or> \<not> hidden_name (path_name p))
      \<and> path_name p \<in> set skip_dirs"
  then show "analyze_directory fs p max_depth include_hidden current_depth =
           Some (Dict (path_name p) ''dir'' p [Str ''<skipped>''] 0
                   (lower (path_name p) \<in> set (map fst KEY_DIRECTORIES)))"
    by (subst analyze_directory.simps) (auto simp: hidden_name_def)
next
  assume "current_depth \<le> max_depth \<and> is_dir fs p \<and> (include_hidden \<or> \<not> hidden_name (path_name p))
      \<and> path_name p \<notin> set skip_dirs \<and> iterdir fs p = None"
  then show "analyze_directory fs p max_depth include_hidden current_depth =
           Some (Dict (path_name p) ''dir'' p [Str ''<permission denied>''] 0
                   (lower (path_name p) \<in> set (map fst KEY_DIRECTORIES)))"
    by (subst analyze_directory.simps) (auto simp: hidden_name_def)
next
  assume a: "current_depth = max_depth \<and> is_dir fs p \<and> (include_hidden \<or> \<not> hidden_name (path_name p))
      \<and> path_name p \<notin> set skip_dirs \<and> iterdir fs p = Some listing"
  then have "analyze_directory fs p max_depth include_hidden current_depth =
    Some (dir_node p (kids fs listing max_depth include_hidden current_depth)
            (sum_list (map get_line_count (kids fs listing max_depth include_hidden current_depth))))"
    by (intro listed_build) auto
  with a show "analyze_directory fs p max_depth include_hidden current_depth =
           Some (Dict (path_name p) ''dir'' p [] 0
                   (lower (path_name p) \<in> set (map fst KEY_DIRECTORIES)))"
    by (simp add: kids_pruned dir_node_def)
qed

theorem markers_and_pruning_witness:
  "analyze_directory denied_fs ''/proj/build'' 1 False 1 =
      Some (Dict ''build'' ''dir'' ''/proj/build'' [Str ''<skipped>''] 0 True)
   \<and> analyze_directory denied_fs ''/proj/private'' 1 False 1 =
      Some (Dict ''private'' ''dir'' ''/proj/private'' [Str ''<permission denied>''] 0 False)
   \<and> analyze_directory denied_fs ''/proj/deep/a.py'' 1 False 2 = None
   \<and> analyze_directory denied_fs ''/proj/deep'' 1 False 1 =
      Some (Dict ''deep'' ''dir'' ''/proj/deep'' [] 0 False)
   \<and> analyze_directory denied_fs ''/proj'' 1 False 0 =
      Some (Dict ''proj'' ''dir'' ''/proj''
        [Dict ''build'' ''dir'' ''/proj/build'' [Str ''<skipped>''] 0 True,
         Dict ''deep'' ''dir'' ''/proj/deep'' [] 0 False,
         Dict ''private'' ''dir'' ''/proj/private'' [Str ''<permission denied>''] 0 False]
        0 False)"
proof -
  have skip_pre: "(1::int) \<le> 1 \<and> is_dir denied_fs ''/proj/build''
      \<and> (False \<or> \<not> hidden_name (path_name ''/proj/build''))
      \<and> path_name ''/proj/build'' \<in> set skip_dirs"
    by (simp add: denied_fs_def hidden_name_def string_ops)
  have denied_pre: "(1::int) \<le> 1 \<and> is_dir denied_fs ''/proj/private''
      \<and> (False \<or> \<not> hidden_name (path_name ''/proj/private''))
      \<and> path_name ''/proj/private'' \<notin> set skip_dirs \<and> iterdir denied_fs ''/proj/private'' = None"
    by (simp add: denied_fs_def hidden_name_def string_ops)
  have deep_pre: "(1::int) = 1 \<and> is_dir denied_fs ''/proj/deep''
      \<and> (False \<or> \<not> hidden_name (path_name ''/proj/deep''))
      \<and> path_name ''/proj/deep'' \<notin> set skip_dirs \<and> iterdir denied_fs ''/proj/deep'' = Some [''/proj/deep/a.py'']"
    by (simp add: denied_fs_def hidden_name_def string_ops)
  have pruned_pre: "(1::int) < 2" by simp
  from markers_and_pruning [of 1 1 denied_fs "''/proj/build''" False] skip_pre
  have a: "analyze_directory denied_fs ''/proj/build'' 1 False 1 =
      Some (Dict ''build'' ''dir'' ''/proj/build'' [Str ''<skipped>''] 0 True)"
    by (simp add: string_ops)
  from markers_and_pruning [of 1 1 denied_fs "''/proj/private''" False] denied_pre
  have b: "analyze_directory denied_fs ''/proj/private'' 1 False 1 =
      Some (Dict ''private'' ''dir'' ''/proj/private'' [Str ''<permission denied>''] 0 False)"
    by (simp add: string_ops)
  from markers_and_pruning [of 2 1 denied_fs "''/proj/deep/a.py''" False] pruned_pre
  have c: "analyze_directory denied_fs ''/proj/deep/a.py'' 1 False 2 = None"
    by simp
  from markers_and_pruning [of 1 1 denied_fs "''/proj/deep''" False "[''/proj/deep/a.py'']"] deep_pre
  have d: "analyze_directory denied_fs ''/proj/deep'' 1 False 1 =
      Some (Dict ''deep'' ''dir'' ''/proj/deep'' [] 0 False)"
    by (simp add: string_ops)
  have e: "analyze_directory denied_fs ''/proj'' 1 False 0 =
      Some (Dict ''proj'' ''dir'' ''/proj''
        [Dict ''build'' ''dir'' ''/proj/build'' [Str ''<skipped>''] 0 True,
         Dict ''deep'' ''dir'' ''/proj/deep'' [] 0 False,
         Dict ''private'' ''dir'' ''/proj/private'' [Str ''<permission denied>''] 0 False]
        0 False)"
    by (simp add: analyze_directory.simps denied_fs_def string_ops)
  from a b c d e show ?thesis by simp
qed

section \<open>Unreadable files\<close>

text \<open>The builder reads a file only through the line counter.\<close>

lemma analyze_same:
  assumes d: "is_dir fs' = is_dir fs" and l: "iterdir fs' = iterdir fs"
    and cl: "\<And>p. count_lines fs' p = count_lines fs p"
  shows "analyze_directory fs' p d h c = analyze_directory fs p d h c"
proof (induction "nat (d + 1 - c)" arbitrary: p c rule: less_induct)
  case less
  have sort: "sort_items fs' = sort_items fs"
    by (simp add: sort_items_def d fun_eq_iff)
  show ?case
  proof (cases "c \<le> d")
    case False
    then show ?thesis by (simp add: analyze_directory.simps)
  next
    case True
    then have "nat (d + 1 - (c + 1)) < nat (d + 1 - c)" by simp
    then have IH: "analyze_directory fs' x d h (c + 1) = analyze_directory fs x d h (c + 1)" for x
      by (rule less.hyps)
    show ?thesis
      by (subst analyze_directory.simps, subst (2) analyze_directory.simps)
         (simp add: d l cl sort IH split: option.split)
  qed
qed

text \<open>
  Claim C7. When reading a file raises, \<open>count_lines\<close> returns 0 (it is a
  total function: nothing is propagated); the node of such a file has
  \<open>line_count = 0\<close>; and the whole build is the build of the same file system
  with that file readable and empty, so the rest of the tree is as it would be.
\<close>

theorem unreadable_file_counts_zero:
  "(read_lines fs f = None \<longrightarrow> count_lines fs f = 0)
   \<and> (read_lines fs f = None \<and> \<not> is_dir fs f \<and> current_depth \<le> max_depth
       \<longrightarrow> analyze_directory fs f max_depth include_hidden current_depth =
             Some (Dict (path_name f) ''file'' f [] 0 False))
   \<and> (read_lines fs f = None
       \<longrightarrow> analyze_directory fs root_path max_depth include_hidden current_depth =
           analyze_directory (fs\<lparr>read_lines := (read_lines fs)(f \<mapsto> 0)\<rparr>)
             root_path max_depth include_hidden current_depth)"
proof (intro conjI impI)
  assume "read_lines fs f = None"
  then show "count_lines fs f = 0" by (simp add: count_lines_def)
next
  assume "read_lines fs f = None \<and> \<not> is_dir fs f \<and> current_depth \<le> max_depth"
  then show "analyze_directory fs f max_depth include_hidden current_depth =
             Some (Dict (path_name f) ''file'' f [] 0 False)"
    by (simp add: analyze_directory.simps count_lines_def)
next
  assume "read_lines fs f = None"
  then have "count_lines fs p = count_lines (fs\<lparr>read_lines := (read_lines fs)(f \<mapsto> 0)\<rparr>) p" for p
    by (simp add: count_lines_def)
  then show "analyze_directory fs root_path max_depth include_hidden current_depth =
           analyze_directory (fs\<lparr>read_lines := (read_lines fs)(f \<mapsto> 0)\<rparr>)
             root_path max_depth include_hidden current_depth"
    by (intro analyze_same) simp_all
qed

theorem unreadable_file_counts_zero_witness:
  "read_lines unreadable_fs ''/proj/src/b.py'' = None
   \<and> count_lines unreadable_fs ''/proj/src/b.py'' = 0
   \<and> \<not> is_dir unreadable_fs ''/proj/src/b.py''
   \<and> analyze_directory unreadable_fs ''/proj/src/b.py'' 3 False 2 =
        Some (Dict ''b.py'' ''file'' ''/proj/src/b.py'' [] 0 False)
   \<and> analyze_directory unreadable_fs ''/proj'' 3 False 0 =
        Some (Dict ''proj'' ''dir'' ''/proj''
          [Dict ''node_modules'' ''dir'' ''/proj/node_modules'' [Str ''<skipped>''] 0 True,
           Dict ''src'' ''dir'' ''/proj/src''
             [Dict ''a.py'' ''file'' ''/proj/src/a.py'' [] 10 False,
              Dict ''b.py'' ''file'' ''/proj/src/b.py'' [] 0 False]
             10 True,
           Dict ''README.md'' ''file'' ''/proj/README.md'' [] 0 False]
          10 False)"
proof -
  have r: "read_lines unreadable_fs ''/proj/src/b.py'' = None"
    by (simp add: unreadable_fs_def)
  have nd: "\<not> is_dir unreadable_fs ''/proj/src/b.py''"
    by (simp add: unreadable_fs_def scenario_fs_def)
  note inst = unreadable_file_counts_zero [of unreadable_fs "''/proj/src/b.py''" 2 3 False "''/proj''"]
  from inst r have z: "count_lines unreadable_fs ''/proj/src/b.py'' = 0" by blast
  from inst r nd have "analyze_directory unreadable_fs ''/proj/src/b.py'' 3 False 2 =
        Some (Dict (path_name ''/proj/src/b.py'') ''file'' ''/proj/src/b.py'' [] 0 False)"
    by simp
  then have node: "analyze_directory unreadable_fs ''/proj/src/b.py'' 3 False 2 =
        Some (Dict ''b.py'' ''file'' ''/proj/src/b.py'' [] 0 False)"
    by (simp add: path_name_def)
  have tree: "analyze_directory unreadable_fs ''/proj'' 3 False 0 =
        Some (Dict ''proj'' ''dir'' ''/proj''
          [Dict ''node_modules'' ''dir'' ''/proj/node_modules'' [Str ''<skipped>''] 0 True,
           Dict ''src'' ''dir'' ''/proj/src''
             [Dict ''a.py'' ''file'' ''/proj/src/a.py'' [] 10 False,
              Dict ''b.py'' ''file'' ''/proj/src/b.py'' [] 0 False]
             10 True,
           Dict ''README.md'' ''file'' ''/proj/README.md'' [] 0 False]
          10 False)"
    by (simp add: analyze_directory.simps unreadable_fs_def scenario_fs_def string_ops)
  from r z nd node tree show ?thesis by simp
qed

section \<open>The scenario\<close>




section \<open>Round trip through the JSON projection\<close>

lemma traverse_to_json_aux:
  "(\<forall>st. traverse_json (to_json t) st = Some (traverse t st))"
proof (induction t)
  case (Str s)
  show ?case by simp
next
  case (Dict n ty p cs l k)
  have kids: "traverse_jsons (map to_json cs) st = Some (fold traverse cs st)" for st
    using Dict.IH
  proof (induction cs arbitrary: st)
    case Nil
    show ?case by simp
  next
    case (Cons c cs)
    then show ?case by simp
  qed
  show ?case by (simp add: kids Let_def)
qed

text \<open>
  Claim C8. For every tree (so for every built tree), the statistics derived
  from the JSON projection of the tree are exactly the statistics computed from
  the tree itself: all five aggregate values agree, and deriving them does not
  fail.
\<close>

theorem stats_round_trip:
  "calculate_stats_json (to_json t) = Some (calculate_stats t)"
  using traverse_to_json_aux [of t]
  by (simp add: calculate_stats_json_def calculate_stats_def)

theorem stats_round_trip_witness:
  "calculate_stats_json (to_json scenario_tree) =
     Some \<lparr>total_files = 3, code_files = 2, total_lines = 15, directories = 3, by_language = [(''py'', 15)]\<rparr>"
  using stats_round_trip [of scenario_tree]
  by (simp add: scenario_tree_def calculate_stats_def string_ops dict_add_def dict_get_def)

end
